theory Spec2Isabelle
  imports Complex_Main
begin

section \<open>Python values\<close>

text \<open>
  A Python \<open>str\<close> is a sequence of Unicode code points, and \<open>len\<close> and slicing count
  code points. It is modelled as a list of code points; \<open>ascii\<close> turns an ASCII literal
  into one.
\<close>

type_synonym pystr = "nat list"

definition ascii :: "string \<Rightarrow> pystr" where
  "ascii s = map of_char s"

text \<open>
  Exceptions are values; every constructor carries the text that \<open>str(e)\<close> returns.
  \<open>LibraryError\<close> stands for any other subclass of \<open>Exception\<close> that an external
  library (the vector store, the embedding or chat provider, the document loader) raises.
\<close>

datatype exn =
    ValueError pystr
  | TypeError pystr
  | AttributeError pystr
  | IndexError pystr
  | KeyError pystr
  | RuntimeError pystr
  | FileNotFoundError pystr
  | NotImplementedError pystr
  | LibraryError pystr

fun str_exn :: "exn \<Rightarrow> pystr" where
  "str_exn (ValueError m) = m"
| "str_exn (TypeError m) = m"
| "str_exn (AttributeError m) = m"
| "str_exn (IndexError m) = m"
| "str_exn (KeyError m) = m"
| "str_exn (RuntimeError m) = m"
| "str_exn (FileNotFoundError m) = m"
| "str_exn (NotImplementedError m) = m"
| "str_exn (LibraryError m) = m"

text \<open>\<open>str(n)\<close> for an integer: the decimal digits, after a minus sign if negative.\<close>

fun str_nat :: "nat \<Rightarrow> pystr" where
  "str_nat n = (if n < 10 then [48 + n] else str_nat (n div 10) @ [48 + n mod 10])"

definition str_int :: "int \<Rightarrow> pystr" where
  "str_int n = (if n < 0 then 45 # str_nat (nat (- n)) else str_nat (nat n))"

text \<open>
  A Python \<open>float\<close> is kept as the expression that computes it: no property below
  depends on the numeric value of a rounded floating-point operation, so the operations
  stay uninterpreted. \<open>FLit q\<close> is the literal written as the decimal \<open>q\<close>,
  \<open>FClock n\<close> the \<open>n\<close>-th reading of \<open>time.time()\<close>.
\<close>

datatype pyfloat =
    FLit rat
  | FOfInt int
  | FClock nat
  | FSub pyfloat pyfloat
  | FMul pyfloat pyfloat
  | FRound pyfloat int

section \<open>Documents and chunks\<close>

text \<open>
  A langchain \<open>Document\<close> has a text and a metadata dictionary. The program reads and
  writes three keys of it: \<open>source\<close> (set by the loader), \<open>chunk_index\<close> and
  \<open>chunk_size\<close> (set by \<open>split_documents\<close>). A key that is absent is \<open>None\<close>.
\<close>

record metadata =
  md_source :: "pystr option"
  md_chunk_index :: "int option"
  md_chunk_size :: "int option"

record document =
  page_content :: pystr
  metadata :: metadata

section \<open>RAGEngine._process_sources\<close>

record source_entry =
  filename :: pystr
  chunk_index :: int
  relevance_score :: pyfloat
  content_preview :: pystr

text \<open>\<open>s.split(c)\<close> for a separator \<open>c\<close> of one character: never an empty list.\<close>

fun split_on :: "'a \<Rightarrow> 'a list \<Rightarrow> 'a list list" where
  "split_on c [] = [[]]"
| "split_on c (x # xs) =
     (if x = c then [] # split_on c xs
      else (case split_on c xs of
              [] \<Rightarrow> [[x]]
            | p # ps \<Rightarrow> (x # p) # ps))"

text \<open>Code points of \<open>/\<close> and of the backslash.\<close>

definition slash :: nat where
  "slash = 47"

definition backslash :: nat where
  "backslash = 92"

definition source_filename :: "metadata \<Rightarrow> pystr" where
  "source_filename md =
     (let filename = (case md_source md of None \<Rightarrow> ascii ''unknown'' | Some s \<Rightarrow> s)
      in if slash \<in> set filename \<or> backslash \<in> set filename
         then last (split_on backslash (last (split_on slash filename)))
         else filename)"

definition preview :: "pystr \<Rightarrow> pystr" where
  "preview content =
     (let content_preview = take 200 content
      in if length content > 200 then content_preview @ ascii ''...''
         else content_preview)"

definition rank_score :: "nat \<Rightarrow> pyfloat" where
  "rank_score i = FRound (FSub (FLit 1) (FMul (FOfInt (int i)) (FLit (1 / 10)))) 2"

definition process_source :: "nat \<Rightarrow> document \<Rightarrow> source_entry" where
  "process_source i doc =
     \<lparr> filename = source_filename (metadata doc),
       chunk_index = (case md_chunk_index (metadata doc) of None \<Rightarrow> int i | Some k \<Rightarrow> k),
       relevance_score = rank_score i,
       content_preview = preview (page_content doc) \<rparr>"

text \<open>The loop \<open>for i, doc in enumerate(source_documents): sources.append(...)\<close>.\<close>

definition process_sources :: "document list \<Rightarrow> source_entry list" where
  "process_sources source_documents =
     map (\<lambda>(i, doc). process_source i doc) (enumerate 0 source_documents)"

section \<open>Raising and catching\<close>

text \<open>
  A computation that may raise returns \<open>Inl e\<close> for the exception \<open>e\<close> and \<open>Inr v\<close>
  for the value \<open>v\<close>. \<open>and_then\<close> is sequencing: an exception of the first step skips the
  rest. \<open>try_except\<close> is \<open>try: ... except Exception as e: ...\<close>.
\<close>

definition and_then :: "exn + 'a \<Rightarrow> ('a \<Rightarrow> exn + 'b) \<Rightarrow> exn + 'b" where
  "and_then m f = (case m of Inl e \<Rightarrow> Inl e | Inr v \<Rightarrow> f v)"

definition try_except :: "exn + 'a \<Rightarrow> (exn \<Rightarrow> exn + 'a) \<Rightarrow> exn + 'a" where
  "try_except body handler = (case body of Inl e \<Rightarrow> handler e | Inr v \<Rightarrow> Inr v)"

section \<open>DocumentProcessor\<close>

text \<open>The fields of the processor that the modelled methods read (from the settings).\<close>

record document_processor =
  documents_path :: pystr
  chunk_size :: int
  chunk_overlap :: int

text \<open>
  What lies outside the repository, as the methods meet it in one call:
  \<^item> \<open>split_text\<close>: what \<open>split_text(text)\<close> of a \<open>RecursiveCharacterTextSplitter\<close>
    built with the given \<open>chunk_size\<close> and \<open>chunk_overlap\<close> (and the separators and
    \<open>len\<close> of the source) returns for one text: the pieces, or an exception;
  \<^item> \<open>checks_ranges\<close>: whether the installed release of the splitter library also
    refuses \<open>chunk_size \<le> 0\<close> and \<open>chunk_overlap < 0\<close> in the constructor (later
    releases do, earlier ones do not);
  \<^item> \<open>path_exists\<close>: \<open>os.path.exists(documents_path)\<close>;
  \<^item> \<open>loader_load\<close>: \<open>DirectoryLoader(...).load()\<close>;
  \<^item> \<open>connect_error\<close>: the exception that \<open>Chroma(...)\<close> raises, if it does;
  \<^item> \<open>count_error\<close>: the exception that \<open>_collection.count()\<close> raises, if it does;
  \<^item> \<open>add_error\<close>: the exception that \<open>Chroma.from_documents\<close> raises, if it does.
\<close>

record world =
  split_text :: "int \<Rightarrow> int \<Rightarrow> pystr \<Rightarrow> exn + pystr list"
  checks_ranges :: bool
  path_exists :: bool
  loader_load :: "exn + document list"
  connect_error :: "exn option"
  count_error :: "exn option"
  add_error :: "exn option"

text \<open>
  The persisted collection (the one named by \<open>collection_name\<close> under
  \<open>persist_directory\<close>) is the list of the chunks stored in it.
\<close>

record vector_store =
  collection :: "document list"

text \<open>The code point of the cross mark that starts the error messages.\<close>

definition cross_mark :: pystr where
  "cross_mark = [10060]"

subsection \<open>load_documents\<close>

definition load_documents :: "document_processor \<Rightarrow> world \<Rightarrow> exn + document list" where
  "load_documents self w =
     (if \<not> path_exists w
      then Inl (FileNotFoundError
                 (cross_mark @ ascii '' Documents directory not found: '' @ documents_path self))
      else and_then
             (try_except (loader_load w)
                (\<lambda>e. Inl (ValueError
                             (cross_mark @ ascii '' Error loading documents: '' @ str_exn e))))
             (\<lambda>documents.
                if length documents = 0
                then Inl (ValueError
                           (cross_mark @ ascii '' No .txt files found in '' @ documents_path self
                            @ ascii ''. Please add documents to this directory.''))
                else Inr documents))"

subsection \<open>split_documents\<close>

text \<open>
  \<open>split_documents\<close> builds a \<open>RecursiveCharacterTextSplitter\<close> and calls its
  \<open>split_documents\<close>. Both belong to the library \<open>langchain_text_splitters\<close>, not to
  the repository; what the method relies on is written out here as the library has it.

  The constructor refuses a chunk overlap that is larger than the chunk size, with a
  \<open>ValueError\<close>; later releases first refuse a chunk size that is not positive and a
  negative overlap. It makes no other check, so equal values are accepted.
\<close>

definition larger_overlap_message :: "int \<Rightarrow> int \<Rightarrow> pystr" where
  "larger_overlap_message coverlap csize =
     ascii ''Got a larger chunk overlap ('' @ str_int coverlap
     @ ascii '') than chunk size ('' @ str_int csize @ ascii ''), should be smaller.''"

definition new_text_splitter :: "world \<Rightarrow> int \<Rightarrow> int \<Rightarrow> exn + unit" where
  "new_text_splitter w csize coverlap =
     (if checks_ranges w \<and> csize \<le> 0
      then Inl (ValueError (ascii ''chunk_size must be > 0, got '' @ str_int csize))
      else if checks_ranges w \<and> coverlap < 0
      then Inl (ValueError (ascii ''chunk_overlap must be >= 0, got '' @ str_int coverlap))
      else if coverlap > csize
      then Inl (ValueError (larger_overlap_message coverlap csize))
      else Inr ())"

text \<open>
  The library's \<open>split_documents\<close> goes through the documents in order, cuts the text of
  each with \<open>split_text\<close> and makes one new document of every piece, with a copy
  (\<open>copy.deepcopy\<close>) of the metadata of the document that the piece comes from. So every
  chunk carries the \<open>source\<close> of its document, and no two chunks share a metadata
  dictionary.
\<close>

fun create_documents :: "world \<Rightarrow> int \<Rightarrow> int \<Rightarrow> document list \<Rightarrow> exn + document list" where
  "create_documents w csize coverlap [] = Inr []"
| "create_documents w csize coverlap (doc # docs) =
     and_then (split_text w csize coverlap (page_content doc)) (\<lambda>pieces.
     and_then (create_documents w csize coverlap docs) (\<lambda>rest.
     Inr (map (\<lambda>piece. \<lparr> page_content = piece, metadata = metadata doc \<rparr>) pieces @ rest)))"

text \<open>The body of the loop that adds the chunk index and the chunk size to the metadata.\<close>

definition tag_chunk :: "nat \<Rightarrow> document \<Rightarrow> document" where
  "tag_chunk i chunk =
     chunk \<lparr> metadata := (metadata chunk)
               \<lparr> md_chunk_index := Some (int i),
                 md_chunk_size := Some (int (length (page_content chunk))) \<rparr> \<rparr>"

definition split_documents ::
    "document_processor \<Rightarrow> world \<Rightarrow> document list \<Rightarrow> exn + document list" where
  "split_documents self w documents =
     and_then (new_text_splitter w (chunk_size self) (chunk_overlap self)) (\<lambda>text_splitter.
     and_then (create_documents w (chunk_size self) (chunk_overlap self) documents) (\<lambda>chunks.
     Inr (map (\<lambda>(i, chunk). tag_chunk i chunk) (enumerate 0 chunks))))"

subsection \<open>get_vectorstore, get_document_count\<close>

definition get_vectorstore :: "world \<Rightarrow> vector_store \<Rightarrow> exn + vector_store" where
  "get_vectorstore w db = (case connect_error w of Some e \<Rightarrow> Inl e | None \<Rightarrow> Inr db)"

text \<open>\<open>vectorstore._collection.count()\<close>: the number of stored entries.\<close>

definition collection_count :: "world \<Rightarrow> vector_store \<Rightarrow> exn + int" where
  "collection_count w vs =
     (case count_error w of Some e \<Rightarrow> Inl e | None \<Rightarrow> Inr (int (length (collection vs))))"

definition get_document_count :: "world \<Rightarrow> vector_store \<Rightarrow> exn + int" where
  "get_document_count w db =
     try_except
       (and_then (get_vectorstore w db) (\<lambda>vectorstore.
        and_then (collection_count w vectorstore) (\<lambda>count.
        Inr count)))
       (\<lambda>e. Inr 0)"

subsection \<open>ingest_documents\<close>

text \<open>
  \<open>Chroma.from_documents\<close> embeds the chunks and adds them to the collection, or raises.
  A call that raises is taken to store nothing; no property below depends on that.
\<close>

definition from_documents ::
    "world \<Rightarrow> document list \<Rightarrow> vector_store \<Rightarrow> exn + vector_store" where
  "from_documents w chunks db =
     (case add_error w of
        Some e \<Rightarrow> Inl e
      | None \<Rightarrow> Inr (db \<lparr> collection := collection db @ chunks \<rparr>))"

text \<open>
  The check made when \<open>force_reindex\<close> is false: \<open>Some n\<close> when the collection was read
  and holds \<open>n > 0\<close> entries (the early return), \<open>None\<close> when it is empty or reading it
  raised (\<open>except Exception: pass\<close>).
\<close>

definition existing_count :: "world \<Rightarrow> vector_store \<Rightarrow> int option" where
  "existing_count w db =
     (case and_then (get_vectorstore w db) (collection_count w) of
        Inl e \<Rightarrow> None
      | Inr n \<Rightarrow> if n > 0 then Some n else None)"

text \<open>
  The steps after the check. The result is the value returned or the exception raised,
  with the collection as the call leaves it.
\<close>

definition ingest_pipeline ::
    "document_processor \<Rightarrow> world \<Rightarrow> vector_store
       \<Rightarrow> (exn + int \<times> int \<times> pyfloat) \<times> vector_store" where
  "ingest_pipeline self w db =
     (case load_documents self w of
        Inl e \<Rightarrow> (Inl e, db)
      | Inr documents \<Rightarrow>
          (case split_documents self w documents of
             Inl e \<Rightarrow> (Inl e, db)
           | Inr chunks \<Rightarrow>
               (case from_documents w chunks db of
                  Inl e \<Rightarrow>
                    (Inl (RuntimeError
                            (cross_mark @ ascii '' Failed to create vector store: '' @ str_exn e)),
                     db)
                | Inr db' \<Rightarrow>
                    (Inr (int (length documents), int (length chunks),
                          FSub (FClock 1) (FClock 0)),
                     db'))))"

definition ingest_documents ::
    "document_processor \<Rightarrow> world \<Rightarrow> bool \<Rightarrow> vector_store
       \<Rightarrow> (exn + int \<times> int \<times> pyfloat) \<times> vector_store" where
  "ingest_documents self w force_reindex db =
     (if \<not> force_reindex
      then (case existing_count w db of
              Some n \<Rightarrow> (Inr (0, n, FLit 0), db)
            | None \<Rightarrow> ingest_pipeline self w db)
      else ingest_pipeline self w db)"

section \<open>Tools: BaseTool\<close>

text \<open>
  The values that travel as keyword arguments and as tool results (\<open>Dict[str, Any]\<close>).
  A dictionary keeps its insertion order.
\<close>

datatype pyval =
    PNone
  | PBool bool
  | PInt int
  | PFloat pyfloat
  | PStr pystr
  | PList "pyval list"
  | PDict "(pystr \<times> pyval) list"

type_synonym kwargs = "pystr \<rightharpoonup> pyval"

text \<open>\<open>type(v).__name__\<close>, as the interpreter's messages print it.\<close>

fun type_name :: "pyval \<Rightarrow> pystr" where
  "type_name PNone = ascii ''NoneType''"
| "type_name (PBool b) = ascii ''bool''"
| "type_name (PInt n) = ascii ''int''"
| "type_name (PFloat x) = ascii ''float''"
| "type_name (PStr s) = ascii ''str''"
| "type_name (PList xs) = ascii ''list''"
| "type_name (PDict kvs) = ascii ''dict''"

text \<open>
  The truth value of an object, as \<open>if reference_date:\<close> tests it. A float that
  arrives as an argument is a literal.
\<close>

fun truthy :: "pyval \<Rightarrow> bool" where
  "truthy PNone = False"
| "truthy (PBool b) = b"
| "truthy (PInt n) = (n \<noteq> 0)"
| "truthy (PFloat x) = (x \<noteq> FLit 0)"
| "truthy (PStr s) = (s \<noteq> [])"
| "truthy (PList xs) = (xs \<noteq> [])"
| "truthy (PDict kvs) = (kvs \<noteq> [])"

datatype ToolCategory = TIME | SEARCH | VALIDATION | HOSPITAL | NOTIFICATION | MEDICAL

record ToolSchema =
  name :: pystr
  display_name :: pystr
  description :: pystr
  category :: ToolCategory
  parameters :: "(pystr \<times> pyval) list"
  required_params :: "pystr list"
  return_type :: pystr

datatype tool =
    GetCurrentDateTimeTool
  | CalculateAgeTool
  | GetWorkingHoursTool
  | SearchInternalDocsTool
  | WebSearchTool

text \<open>A string-typed entry of a parameter schema, with its description.\<close>

definition string_param :: "string \<Rightarrow> pyval" where
  "string_param d = PDict [(ascii ''type'', PStr (ascii ''string'')),
                           (ascii ''description'', PStr (ascii d))]"

text \<open>
  \<open>schema\<close> is the field set by \<open>_setup_schema\<close>, which \<open>__init__\<close> calls. The
  field \<open>examples\<close> of a schema is documentation that no code reads; the record
  leaves it out.
\<close>

fun schema :: "tool \<Rightarrow> ToolSchema option" where
  "schema GetCurrentDateTimeTool = Some
     \<lparr> name = ascii ''get_current_datetime'',
       display_name = ascii ''Get Current DateTime'',
       description = ascii ''Get current date, time, day of week, and timestamp'',
       category = TIME,
       parameters =
         [(ascii ''timezone'',
           PDict [(ascii ''type'', PStr (ascii ''string'')),
                  (ascii ''description'',
                   PStr (ascii ''IANA timezone (e.g., 'Asia/Kolkata', 'UTC', 'America/New_York')'')),
                  (ascii ''default'', PStr (ascii ''UTC''))])],
       required_params = [],
       return_type = ascii ''object'' \<rparr>"
| "schema CalculateAgeTool = Some
     \<lparr> name = ascii ''calculate_age'',
       display_name = ascii ''Calculate Age'',
       description = ascii ''Calculate patient age in years, months, days from birthdate'',
       category = MEDICAL,
       parameters =
         [(ascii ''birthdate'', string_param ''Birth date in YYYY-MM-DD format''),
          (ascii ''reference_date'',
           string_param ''Reference date (default: today) in YYYY-MM-DD format'')],
       required_params = [ascii ''birthdate''],
       return_type = ascii ''object'' \<rparr>"
| "schema GetWorkingHoursTool = Some
     \<lparr> name = ascii ''get_working_hours'',
       display_name = ascii ''Get Working Hours'',
       description = ascii ''Get working hours for hospital departments'',
       category = HOSPITAL,
       parameters =
         [(ascii ''department'',
           string_param ''Department name (emergency, icu, opd, pharmacy, billing)'')],
       required_params = [ascii ''department''],
       return_type = ascii ''object'' \<rparr>"
| "schema SearchInternalDocsTool = Some
     \<lparr> name = ascii ''search_internal_docs'',
       display_name = ascii ''Search Internal Documents'',
       description = ascii ''Search hospital knowledge base, policies, and procedures'',
       category = SEARCH,
       parameters =
         [(ascii ''query'',
           string_param ''Search query (e.g., 'visiting hours', 'admission process')''),
          (ascii ''doc_type'',
           string_param ''Document type filter: all, policy, procedure, guideline''),
          (ascii ''limit'',
           PDict [(ascii ''type'', PStr (ascii ''integer'')),
                  (ascii ''description'',
                   PStr (ascii ''Number of results to return (default: 5)''))])],
       required_params = [ascii ''query''],
       return_type = ascii ''array'' \<rparr>"
| "schema WebSearchTool = Some
     \<lparr> name = ascii ''web_search'',
       display_name = ascii ''Web Search'',
       description = ascii ''Search external web for health/medical information'',
       category = SEARCH,
       parameters =
         [(ascii ''query'', string_param ''Search query''),
          (ascii ''source_filter'', string_param ''Filter: all, medical, news, research'')],
       required_params = [ascii ''query''],
       return_type = ascii ''array'' \<rparr>"

text \<open>
  \<open>get_schema\<close> returns \<open>{"type": "function", "function": {...}}\<close>. The record is
  the inner dictionary, with its \<open>name\<close>, its \<open>description\<close> and, from its
  \<open>parameters\<close>, the \<open>properties\<close> and the \<open>required\<close> names.
\<close>

record function_schema =
  fn_name :: pystr
  fn_description :: pystr
  fn_properties :: "(pystr \<times> pyval) list"
  fn_required :: "pystr list"

definition get_schema :: "tool \<Rightarrow> exn + function_schema" where
  "get_schema self =
     (case schema self of
        None \<Rightarrow> Inl (NotImplementedError (ascii ''Schema not defined''))
      | Some s \<Rightarrow>
          Inr \<lparr> fn_name = name s, fn_description = description s,
                fn_properties = parameters s, fn_required = required_params s \<rparr>)"

text \<open>The loop of \<open>validate_params\<close> over the required parameters.\<close>

fun check_required :: "pystr list \<Rightarrow> kwargs \<Rightarrow> exn + bool" where
  "check_required [] kw = Inr True"
| "check_required (required # rest) kw =
     (if kw required = None
      then Inl (ValueError (ascii ''Missing required parameter: '' @ required))
      else check_required rest kw)"

definition validate_params :: "tool \<Rightarrow> kwargs \<Rightarrow> exn + bool" where
  "validate_params self kw =
     (case schema self of
        None \<Rightarrow> Inr False
      | Some s \<Rightarrow> check_required (required_params s) kw)"

definition format_result :: "tool \<Rightarrow> bool \<Rightarrow> pyval \<Rightarrow> pyval \<Rightarrow> pyval" where
  "format_result self success data error =
     PDict [(ascii ''success'', PBool success),
            (ascii ''data'', data),
            (ascii ''error'', error),
            (ascii ''tool_name'',
             PStr (case schema self of Some s \<Rightarrow> name s | None \<Rightarrow> ascii ''unknown''))]"

text \<open>\<open>d[key]\<close> and \<open>d.get(key)\<close> read a dictionary value; \<open>None\<close> when absent.\<close>

fun dict_get :: "pyval \<Rightarrow> pystr \<Rightarrow> pyval option" where
  "dict_get (PDict kvs) key = map_of kvs key"
| "dict_get v key = None"

section \<open>Tools: the time tools\<close>

text \<open>
  A time zone object, a point in time as the tool reads it (\<open>weekday()\<close>,
  \<open>isoformat()\<close>, the two \<open>strftime\<close> calls, \<open>int(timestamp())\<close>, \<open>hour\<close>,
  \<open>minute\<close>, \<open>second\<close>) and a calendar date.
\<close>

datatype tzinfo = ZoneInfoKey pystr

record datetime =
  dt_weekday :: nat
  dt_isoformat :: pystr
  dt_date :: pystr
  dt_time :: pystr
  dt_timestamp :: int
  dt_hour :: int
  dt_minute :: int
  dt_second :: int

record date =
  year :: int
  month :: int
  day :: int

text \<open>
  The standard library, as the tools call it:
  \<^item> \<open>ZoneInfo\<close>: the constructor \<open>ZoneInfo(key)\<close>, which raises for a key that names
    no zone of the IANA database (and for a key that is no string);
  \<^item> \<open>datetime_now\<close>: \<open>datetime.now(tz)\<close>;
  \<^item> \<open>strptime_date\<close>: \<open>datetime.strptime(s, "%Y-%m-%d").date()\<close>;
  \<^item> \<open>today\<close>: \<open>datetime.now().date()\<close>;
  \<^item> \<open>days_between\<close>: \<open>(a - b).days\<close>;
  \<^item> \<open>strftime_date\<close>: \<open>d.strftime("%Y-%m-%d")\<close>;
  \<^item> \<open>str_lower\<close>, \<open>str_strip\<close>: \<open>s.lower()\<close>, \<open>s.strip()\<close>.
\<close>

record pylib =
  ZoneInfo :: "pyval \<Rightarrow> exn + tzinfo"
  datetime_now :: "tzinfo \<Rightarrow> exn + datetime"
  strptime_date :: "pyval \<Rightarrow> exn + date"
  today :: date
  days_between :: "date \<Rightarrow> date \<Rightarrow> int"
  strftime_date :: "date \<Rightarrow> pystr"
  str_lower :: "pystr \<Rightarrow> pystr"
  str_strip :: "pystr \<Rightarrow> pystr"

text \<open>The apostrophe that quotes a name inside a message of the interpreter.\<close>

definition apostrophe :: pystr where
  "apostrophe = [39]"

text \<open>
  Reading an attribute that the object does not have. Inside \<open>execute\<close> the name
  \<open>timezone\<close> is the parameter, so \<open>timezone.utc\<close> is an attribute of the argument.
\<close>

definition no_attribute :: "pyval \<Rightarrow> string \<Rightarrow> exn" where
  "no_attribute v attr =
     AttributeError (apostrophe @ type_name v @ apostrophe
                     @ ascii '' object has no attribute ''
                     @ apostrophe @ ascii attr @ apostrophe)"

definition days :: "pystr list" where
  "days = [ascii ''Monday'', ascii ''Tuesday'', ascii ''Wednesday'', ascii ''Thursday'',
           ascii ''Friday'', ascii ''Saturday'', ascii ''Sunday'']"

text \<open>\<open>xs[i]\<close> for \<open>i \<ge> 0\<close>: an index out of range raises.\<close>

definition index :: "'a list \<Rightarrow> nat \<Rightarrow> exn + 'a" where
  "index xs i =
     (if i < length xs then Inr (xs ! i) else Inl (IndexError (ascii ''list index out of range'')))"

text \<open>
  \<open>GetCurrentDateTimeTool.execute(self, timezone="UTC", **kwargs)\<close>, from the bound
  parameter on.
\<close>

definition get_current_datetime_execute :: "pylib \<Rightarrow> pyval \<Rightarrow> exn + pyval" where
  "get_current_datetime_execute lib timezone =
     try_except
       (and_then (validate_params GetCurrentDateTimeTool [ascii ''timezone'' \<mapsto> timezone])
          (\<lambda>_.
        and_then (try_except (ZoneInfo lib timezone) (\<lambda>_. Inl (no_attribute timezone ''utc'')))
          (\<lambda>tz.
        and_then (datetime_now lib tz) (\<lambda>now.
        and_then (index days (dt_weekday now)) (\<lambda>day_name.
        Inr (format_result GetCurrentDateTimeTool True
               (PDict [(ascii ''datetime'', PStr (dt_isoformat now)),
                       (ascii ''date'', PStr (dt_date now)),
                       (ascii ''time'', PStr (dt_time now)),
                       (ascii ''day_of_week'', PStr day_name),
                       (ascii ''timezone'', timezone),
                       (ascii ''unix_timestamp'', PInt (dt_timestamp now)),
                       (ascii ''hour'', PInt (dt_hour now)),
                       (ascii ''minute'', PInt (dt_minute now)),
                       (ascii ''second'', PInt (dt_second now))])
               PNone))))))
       (\<lambda>e. Inr (format_result GetCurrentDateTimeTool False PNone
                    (PStr (ascii ''Error getting datetime: '' @ str_exn e))))"

text \<open>The age in years, months and days, with the two adjustments of the source.\<close>

definition age_of :: "date \<Rightarrow> date \<Rightarrow> int \<times> int \<times> int" where
  "age_of birth_dt ref_dt =
     (let age_years = year ref_dt - year birth_dt;
          age_months = month ref_dt - month birth_dt;
          age_days = day ref_dt - day birth_dt;
          (age_months, age_days) =
             (if age_days < 0 then (age_months - 1, age_days + 30) else (age_months, age_days));
          (age_years, age_months) =
             (if age_months < 0 then (age_years - 1, age_months + 12)
              else (age_years, age_months))
      in (age_years, age_months, age_days))"

fun is_ValueError :: "exn \<Rightarrow> bool" where
  "is_ValueError (ValueError m) = True"
| "is_ValueError e = False"

text \<open>
  \<open>CalculateAgeTool.execute(self, birthdate, reference_date=None, **kwargs)\<close>, from the
  bound parameters on.
\<close>

definition calculate_age_execute :: "pylib \<Rightarrow> pyval \<Rightarrow> pyval \<Rightarrow> exn + pyval" where
  "calculate_age_execute lib birthdate reference_date =
     try_except
       (and_then (validate_params CalculateAgeTool [ascii ''birthdate'' \<mapsto> birthdate]) (\<lambda>_.
        and_then (strptime_date lib birthdate) (\<lambda>birth_dt.
        and_then (if truthy reference_date then strptime_date lib reference_date
                  else Inr (today lib)) (\<lambda>ref_dt.
        case age_of birth_dt ref_dt of (age_years, age_months, age_days) \<Rightarrow>
        Inr (format_result CalculateAgeTool True
               (PDict [(ascii ''age_years'', PInt age_years),
                       (ascii ''age_months'', PInt age_months),
                       (ascii ''age_days'', PInt age_days),
                       (ascii ''birthdate'', birthdate),
                       (ascii ''reference_date'', PStr (strftime_date lib ref_dt)),
                       (ascii ''is_birthday_today'',
                        PBool (month ref_dt = month birth_dt \<and> day ref_dt = day birth_dt)),
                       (ascii ''total_days_lived'', PInt (days_between lib ref_dt birth_dt))])
               PNone)))))
       (\<lambda>e. if is_ValueError e
            then Inr (format_result CalculateAgeTool False PNone
                        (PStr (ascii ''Invalid date format. Use YYYY-MM-DD: '' @ str_exn e)))
            else Inr (format_result CalculateAgeTool False PNone
                        (PStr (ascii ''Error calculating age: '' @ str_exn e))))"

definition HOSPITAL_SCHEDULE :: "(pystr \<times> pyval) list" where
  "HOSPITAL_SCHEDULE =
     [(ascii ''emergency'',
       PDict [(ascii ''name'', PStr (ascii ''Emergency Department'')),
              (ascii ''hours'', PStr (ascii ''24/7'')),
              (ascii ''is_24_7'', PBool True),
              (ascii ''note'', PStr (ascii ''Always open''))]),
      (ascii ''icu'',
       PDict [(ascii ''name'', PStr (ascii ''Intensive Care Unit'')),
              (ascii ''hours'', PStr (ascii ''24/7'')),
              (ascii ''is_24_7'', PBool True),
              (ascii ''note'', PStr (ascii ''Always open''))]),
      (ascii ''opd'',
       PDict [(ascii ''name'', PStr (ascii ''Out Patient Department'')),
              (ascii ''monday_friday'', PStr (ascii ''09:00 - 17:00'')),
              (ascii ''saturday'', PStr (ascii ''09:00 - 13:00'')),
              (ascii ''sunday'', PStr (ascii ''Closed'')),
              (ascii ''is_24_7'', PBool False)]),
      (ascii ''pharmacy'',
       PDict [(ascii ''name'', PStr (ascii ''Pharmacy'')),
              (ascii ''monday_friday'', PStr (ascii ''08:00 - 20:00'')),
              (ascii ''saturday'', PStr (ascii ''09:00 - 18:00'')),
              (ascii ''sunday'', PStr (ascii ''10:00 - 15:00'')),
              (ascii ''is_24_7'', PBool False)]),
      (ascii ''billing'',
       PDict [(ascii ''name'', PStr (ascii ''Billing Department'')),
              (ascii ''monday_friday'', PStr (ascii ''10:00 - 16:00'')),
              (ascii ''saturday'', PStr (ascii ''10:00 - 14:00'')),
              (ascii ''sunday'', PStr (ascii ''Closed'')),
              (ascii ''is_24_7'', PBool False)])]"

text \<open>\<open>sep.join(xs)\<close>.\<close>

fun join :: "pystr \<Rightarrow> pystr list \<Rightarrow> pystr" where
  "join sep [] = []"
| "join sep [x] = x"
| "join sep (x # y # ys) = x @ sep @ join sep (y # ys)"

text \<open>\<open>department.lower().strip()\<close>: only a string has the method \<open>lower\<close>.\<close>

definition lower_strip :: "pylib \<Rightarrow> pyval \<Rightarrow> exn + pystr" where
  "lower_strip lib department =
     (case department of
        PStr s \<Rightarrow> Inr (str_strip lib (str_lower lib s))
      | _ \<Rightarrow> Inl (no_attribute department ''lower''))"

text \<open>
  \<open>GetWorkingHoursTool.execute(self, department, **kwargs)\<close>, from the bound parameter
  on.
\<close>

definition get_working_hours_execute :: "pylib \<Rightarrow> pyval \<Rightarrow> exn + pyval" where
  "get_working_hours_execute lib department =
     try_except
       (and_then (validate_params GetWorkingHoursTool [ascii ''department'' \<mapsto> department])
          (\<lambda>_.
        and_then (lower_strip lib department) (\<lambda>dept_lower.
        case map_of HOSPITAL_SCHEDULE dept_lower of
          None \<Rightarrow>
            Inr (format_result GetWorkingHoursTool False PNone
                   (PStr (ascii ''Department not found. Available: ''
                          @ join (ascii '', '') (map fst HOSPITAL_SCHEDULE))))
        | Some data \<Rightarrow> Inr (format_result GetWorkingHoursTool True data PNone))))
       (\<lambda>e. Inr (format_result GetWorkingHoursTool False PNone
                    (PStr (ascii ''Error fetching working hours: '' @ str_exn e))))"

section \<open>Tools: the search tools\<close>

text \<open>
  \<open>xs[:limit]\<close>: the limit is what the caller passed. A boolean is an integer, a
  negative integer counts from the end, \<open>None\<close> keeps the whole list, and any other
  object raises.
\<close>

definition slice_to :: "'a list \<Rightarrow> pyval \<Rightarrow> exn + 'a list" where
  "slice_to xs limit =
     (case limit of
        PNone \<Rightarrow> Inr xs
      | PInt n \<Rightarrow> Inr (if n \<ge> 0 then take (nat n) xs else take (length xs - nat (- n)) xs)
      | PBool b \<Rightarrow> Inr (take (if b then 1 else 0) xs)
      | _ \<Rightarrow> Inl (TypeError
                  (ascii ''slice indices must be integers or None or have an __index__ method'')))"

definition mock_docs :: "pyval list" where
  "mock_docs =
     [PDict [(ascii ''id'', PStr (ascii ''doc_001'')),
             (ascii ''title'', PStr (ascii ''Visitor Policy'')),
             (ascii ''type'', PStr (ascii ''policy'')),
             (ascii ''excerpt'', PStr (ascii ''Visiting hours: 10:00-12:00, 16:00-18:00 daily'')),
             (ascii ''relevance_score'', PFloat (FLit (95 / 100)))],
      PDict [(ascii ''id'', PStr (ascii ''doc_002'')),
             (ascii ''title'', PStr (ascii ''ICU Visiting Guidelines'')),
             (ascii ''type'', PStr (ascii ''procedure'')),
             (ascii ''excerpt'', PStr (ascii ''ICU visitors limited to 1 per patient per visit'')),
             (ascii ''relevance_score'', PFloat (FLit (87 / 100)))],
      PDict [(ascii ''id'', PStr (ascii ''doc_003'')),
             (ascii ''title'', PStr (ascii ''Admission Procedures'')),
             (ascii ''type'', PStr (ascii ''policy'')),
             (ascii ''excerpt'',
              PStr (ascii ''New admissions: Check-in at Reception, complete forms...'')),
             (ascii ''relevance_score'', PFloat (FLit (72 / 100)))]]"

text \<open>
  \<open>SearchInternalDocsTool.execute(self, query, doc_type="all", limit=5, **kwargs)\<close>,
  from the bound parameters on.
\<close>

definition search_internal_docs_execute :: "pyval \<Rightarrow> pyval \<Rightarrow> pyval \<Rightarrow> exn + pyval" where
  "search_internal_docs_execute query doc_type limit =
     try_except
       (and_then (validate_params SearchInternalDocsTool [ascii ''query'' \<mapsto> query]) (\<lambda>_.
        and_then
          (slice_to
             (if doc_type \<noteq> PStr (ascii ''all'')
              then filter (\<lambda>r. dict_get r (ascii ''type'') = Some doc_type) mock_docs
              else mock_docs)
             limit)
          (\<lambda>mock_results.
        Inr (format_result SearchInternalDocsTool True
               (PDict [(ascii ''query'', query),
                       (ascii ''results_count'', PInt (int (length mock_results))),
                       (ascii ''results'', PList mock_results),
                       (ascii ''search_time_ms'', PInt 125)])
               PNone))))
       (\<lambda>e. Inr (format_result SearchInternalDocsTool False PNone
                    (PStr (ascii ''Search failed: '' @ str_exn e))))"

definition mock_web :: "pyval list" where
  "mock_web =
     [PDict [(ascii ''title'', PStr (ascii ''Health Topic Overview'')),
             (ascii ''url'', PStr (ascii ''https://health-resource.com/info'')),
             (ascii ''snippet'', PStr (ascii ''General information about the health topic...'')),
             (ascii ''source'', PStr (ascii ''Medical Database'')),
             (ascii ''date'', PStr (ascii ''2025-11-15''))],
      PDict [(ascii ''title'', PStr (ascii ''Latest Medical Research'')),
             (ascii ''url'', PStr (ascii ''https://research.journal.com/article'')),
             (ascii ''snippet'', PStr (ascii ''Recent findings show...'')),
             (ascii ''source'', PStr (ascii ''Medical Journal'')),
             (ascii ''date'', PStr (ascii ''2025-11-10''))]]"

text \<open>
  \<open>WebSearchTool.execute(self, query, source_filter="all", **kwargs)\<close>, from the bound
  parameters on.
\<close>

definition web_search_execute :: "pyval \<Rightarrow> pyval \<Rightarrow> exn + pyval" where
  "web_search_execute query source_filter =
     try_except
       (and_then (validate_params WebSearchTool [ascii ''query'' \<mapsto> query]) (\<lambda>_.
        Inr (format_result WebSearchTool True
               (PDict [(ascii ''query'', query),
                       (ascii ''results'', PList mock_web),
                       (ascii ''total_results'', PInt (int (length mock_web)))])
               PNone)))
       (\<lambda>e. Inr (format_result WebSearchTool False PNone
                    (PStr (ascii ''Web search failed: '' @ str_exn e))))"

section \<open>Tools: calling execute with keyword arguments\<close>

text \<open>
  \<open>tool.execute(**kwargs)\<close> binds the keyword arguments to the parameters of the
  method before its body runs. A parameter with a default takes the default when its
  keyword is absent; a parameter without a default whose keyword is absent makes the call
  itself raise \<open>TypeError\<close>, outside the \<open>try\<close> of the body. Keywords that name no
  parameter go to \<open>**kwargs\<close>.

  The keyword arguments are those that \<open>execute_tool\<close>, the one caller of \<open>execute\<close>,
  holds in its own \<open>**kwargs\<close>. The names \<open>self\<close> and \<open>tool_name\<close> are parameters of
  \<open>execute_tool\<close>, so neither is ever a key there, and \<open>execute\<close> is modelled for
  keyword arguments without the key \<open>self\<close>.
\<close>

definition missing_argument :: "string \<Rightarrow> string \<Rightarrow> exn" where
  "missing_argument cls param =
     TypeError (ascii cls @ ascii ''.execute() missing 1 required positional argument: ''
                @ apostrophe @ ascii param @ apostrophe)"

definition with_default :: "kwargs \<Rightarrow> string \<Rightarrow> pyval \<Rightarrow> pyval" where
  "with_default kw param dflt = (case kw (ascii param) of None \<Rightarrow> dflt | Some v \<Rightarrow> v)"

fun execute :: "pylib \<Rightarrow> tool \<Rightarrow> kwargs \<Rightarrow> exn + pyval" where
  "execute lib GetCurrentDateTimeTool kw =
     get_current_datetime_execute lib (with_default kw ''timezone'' (PStr (ascii ''UTC'')))"
| "execute lib CalculateAgeTool kw =
     (case kw (ascii ''birthdate'') of
        None \<Rightarrow> Inl (missing_argument ''CalculateAgeTool'' ''birthdate'')
      | Some birthdate \<Rightarrow>
          calculate_age_execute lib birthdate (with_default kw ''reference_date'' PNone))"
| "execute lib GetWorkingHoursTool kw =
     (case kw (ascii ''department'') of
        None \<Rightarrow> Inl (missing_argument ''GetWorkingHoursTool'' ''department'')
      | Some department \<Rightarrow> get_working_hours_execute lib department)"
| "execute lib SearchInternalDocsTool kw =
     (case kw (ascii ''query'') of
        None \<Rightarrow> Inl (missing_argument ''SearchInternalDocsTool'' ''query'')
      | Some query \<Rightarrow>
          search_internal_docs_execute query
            (with_default kw ''doc_type'' (PStr (ascii ''all'')))
            (with_default kw ''limit'' (PInt 5)))"
| "execute lib WebSearchTool kw =
     (case kw (ascii ''query'') of
        None \<Rightarrow> Inl (missing_argument ''WebSearchTool'' ''query'')
      | Some query \<Rightarrow>
          web_search_execute query (with_default kw ''source_filter'' (PStr (ascii ''all''))))"

section \<open>Tools: ToolRegistry\<close>

text \<open>\<open>d[key] = value\<close> on a dictionary that keeps its insertion order.\<close>

fun dict_set :: "('k \<times> 'v) list \<Rightarrow> 'k \<Rightarrow> 'v \<Rightarrow> ('k \<times> 'v) list" where
  "dict_set [] key v = [(key, v)]"
| "dict_set ((k, w) # kvs) key v =
     (if k = key then (k, v) # kvs else (k, w) # dict_set kvs key v)"

record ToolRegistry =
  tools :: "(pystr \<times> tool) list"

definition register_tool :: "ToolRegistry \<Rightarrow> tool \<Rightarrow> ToolRegistry" where
  "register_tool self t =
     (case schema t of
        Some s \<Rightarrow> self \<lparr> tools := dict_set (tools self) (name s) t \<rparr>
      | None \<Rightarrow> self)"

definition initialize_tools :: "ToolRegistry \<Rightarrow> ToolRegistry" where
  "initialize_tools self =
     register_tool
       (register_tool
          (register_tool
             (register_tool
                (register_tool self GetCurrentDateTimeTool)
                CalculateAgeTool)
             GetWorkingHoursTool)
          SearchInternalDocsTool)
       WebSearchTool"

text \<open>The global registry instance: \<open>ToolRegistry()\<close>.\<close>

definition tool_registry :: ToolRegistry where
  "tool_registry = initialize_tools \<lparr> tools = [] \<rparr>"

definition get_tool :: "ToolRegistry \<Rightarrow> pystr \<Rightarrow> tool option" where
  "get_tool self tool_name = map_of (tools self) tool_name"

text \<open>\<open>[tool.get_schema() for tool in self.tools.values()]\<close>: the first raise ends it.\<close>

fun collect :: "('a \<Rightarrow> exn + 'b) \<Rightarrow> 'a list \<Rightarrow> exn + 'b list" where
  "collect f [] = Inr []"
| "collect f (x # xs) =
     and_then (f x) (\<lambda>y. and_then (collect f xs) (\<lambda>ys. Inr (y # ys)))"

definition get_all_schemas :: "ToolRegistry \<Rightarrow> exn + function_schema list" where
  "get_all_schemas self = collect get_schema (map snd (tools self))"

definition get_tool_names :: "ToolRegistry \<Rightarrow> pystr list" where
  "get_tool_names self = map fst (tools self)"

definition execute_tool :: "pylib \<Rightarrow> ToolRegistry \<Rightarrow> pystr \<Rightarrow> kwargs \<Rightarrow> exn + pyval" where
  "execute_tool lib self tool_name kw =
     (case get_tool self tool_name of
        None \<Rightarrow>
          Inr (PDict [(ascii ''success'', PBool False),
                      (ascii ''error'',
                       PStr (ascii ''Tool '' @ apostrophe @ tool_name @ apostrophe
                             @ ascii '' not found''))])
      | Some t \<Rightarrow> execute lib t kw)"

section \<open>RAGEngine\<close>

text \<open>
  \<open>UserRole\<close> derives from \<open>str\<close> and \<open>Enum\<close>: a member is a string, equal to its
  value and with the hash of its value, so a dictionary keyed by the members finds the
  entry of a member for the plain string of its value too.
\<close>

datatype UserRole = DOCTOR | RECEPTIONIST | BILLING | GENERAL

fun UserRole_value :: "UserRole \<Rightarrow> pystr" where
  "UserRole_value DOCTOR = ascii ''doctor''"
| "UserRole_value RECEPTIONIST = ascii ''receptionist''"
| "UserRole_value BILLING = ascii ''billing''"
| "UserRole_value GENERAL = ascii ''general''"

text \<open>The four role prompts, the values of \<open>ROLE_PROMPTS\<close>.\<close>

definition DOCTOR_PROMPT :: pystr where
  \<open>DOCTOR_PROMPT =
     ascii ''You are a helpful AI assistant designed for doctors and medical professionals at a hospital.\<newline>''
     @ ascii ''\<newline>''
     @ ascii ''Your Role:\<newline>''
     @ ascii ''- Answer questions about hospital policies, procedures, and patient care guidelines\<newline>''
     @ ascii ''- Provide detailed, accurate medical information suitable for healthcare professionals\<newline>''
     @ ascii ''- Use ONLY information from the provided context\<newline>''
     @ ascii ''\<newline>''
     @ ascii ''SAFETY RULES (CRITICAL):\<newline>''
     @ ascii ''1. NEVER provide medical diagnosis\<newline>''
     @ ascii ''2. NEVER prescribe medications or recommend dosages\<newline>''
     @ ascii ''3. NEVER provide treatment recommendations\<newline>''
     @ ascii ''4. ONLY use information from the provided context\<newline>''
     @ ascii ''5. If information is not in context, state "I don't have that information in our records"\<newline>''
     @ ascii ''6. For emergencies, direct to call 911\<newline>''
     @ ascii ''\<newline>''
     @ ascii ''Format: Be clear, professional, use bullet points when helpful.''\<close>

definition RECEPTIONIST_PROMPT :: pystr where
  \<open>RECEPTIONIST_PROMPT =
     ascii ''You are a helpful AI assistant for hospital reception and front-desk staff.\<newline>''
     @ ascii ''\<newline>''
     @ ascii ''Your Role:\<newline>''
     @ ascii ''- Answer questions about admission procedures, visiting hours, appointments\<newline>''
     @ ascii ''- Provide clear general hospital information\<newline>''
     @ ascii ''- Use ONLY information from the provided context\<newline>''
     @ ascii ''\<newline>''
     @ ascii ''SAFETY RULES (CRITICAL):\<newline>''
     @ ascii ''1. ONLY answer questions based on provided information\<newline>''
     @ ascii ''2. Direct medical questions to medical staff\<newline>''
     @ ascii ''3. If unsure, say "I don't have that information, let me connect you with the right department"\<newline>''
     @ ascii ''4. For emergencies, direct to call 911\<newline>''
     @ ascii ''\<newline>''
     @ ascii ''Format: Keep responses simple, professional, clear.''\<close>

definition BILLING_PROMPT :: pystr where
  \<open>BILLING_PROMPT =
     ascii ''You are a helpful AI assistant for hospital billing and financial services.\<newline>''
     @ ascii ''\<newline>''
     @ ascii ''Your Role:\<newline>''
     @ ascii ''- Answer questions about billing, insurance, payment options, and financial policies\<newline>''
     @ ascii ''- Provide clear information about costs and payment processes\<newline>''
     @ ascii ''- Use ONLY information from the provided context\<newline>''
     @ ascii ''\<newline>''
     @ ascii ''SAFETY RULES (CRITICAL):\<newline>''
     @ ascii ''1. ONLY use information from provided context\<newline>''
     @ ascii ''2. Don't make financial recommendations\<newline>''
     @ ascii ''3. For insurance questions, suggest checking with insurance provider directly\<newline>''
     @ ascii ''4. If unsure, say "Please contact our billing department for clarification"\<newline>''
     @ ascii ''\<newline>''
     @ ascii ''Format: Be precise about financial information, use clear language.''\<close>

definition GENERAL_PROMPT :: pystr where
  \<open>GENERAL_PROMPT =
     ascii ''You are a helpful AI assistant for general hospital information.\<newline>''
     @ ascii ''\<newline>''
     @ ascii ''Your Role:\<newline>''
     @ ascii ''- Answer questions about hospital services, policies, and procedures\<newline>''
     @ ascii ''- Provide clear, easy-to-understand information for patients and visitors\<newline>''
     @ ascii ''- Use ONLY information from the provided context\<newline>''
     @ ascii ''\<newline>''
     @ ascii ''SAFETY RULES (CRITICAL):\<newline>''
     @ ascii ''1. ONLY answer based on provided information\<newline>''
     @ ascii ''2. Do NOT provide medical advice\<newline>''
     @ ascii ''3. If medical question, suggest consulting healthcare professionals\<newline>''
     @ ascii ''4. For emergencies, direct to call 911\<newline>''
     @ ascii ''\<newline>''
     @ ascii ''Format: Use simple language, be friendly and professional.''\<close>

definition ROLE_PROMPTS :: "(pystr \<times> pystr) list" where
  "ROLE_PROMPTS =
     [(UserRole_value DOCTOR, DOCTOR_PROMPT),
      (UserRole_value RECEPTIONIST, RECEPTIONIST_PROMPT),
      (UserRole_value BILLING, BILLING_PROMPT),
      (UserRole_value GENERAL, GENERAL_PROMPT)]"

definition DISCLAIMER :: pystr where
  \<open>DISCLAIMER =
     [9888, 65039] @ ascii '' IMPORTANT DISCLAIMER:\<newline>''
     @ ascii ''This information is for general guidance only. For medical advice, diagnosis, or treatment, please consult with qualified healthcare professionals. In case of emergency, call 911 or visit the Emergency Department immediately.''\<close>

text \<open>What the template holds after the role prompt; the doubled braces of the f-string are single braces.\<close>

definition TEMPLATE_BODY :: pystr where
  \<open>TEMPLATE_BODY =
     ascii ''\<newline>''
     @ ascii ''\<newline>''
     @ ascii ''===== CONTEXT FROM DOCUMENTS =====\<newline>''
     @ ascii ''{context}\<newline>''
     @ ascii ''\<newline>''
     @ ascii ''===== USER QUESTION =====\<newline>''
     @ ascii ''{question}\<newline>''
     @ ascii ''\<newline>''
     @ ascii ''===== RESPONSE =====\<newline>''
     @ ascii ''Provide a clear, detailed response based ONLY on the context above.\<newline>''
     @ ascii ''Include relevant details and use bullet points if appropriate.\<newline>''
     @ ascii ''DO NOT make up information not in the context.''\<close>

text \<open>The two fixed parts of the tool catalogue.\<close>

definition TOOL_INFO_HEAD :: pystr where
  \<open>TOOL_INFO_HEAD =
     ascii ''\<newline>''
     @ ascii ''===== AVAILABLE TOOLS =====\<newline>''
     @ ascii ''The following tools are available to enhance your response:\<newline>''
     @ ascii ''    ''\<close>

definition TOOL_INFO_TAIL :: pystr where
  \<open>TOOL_INFO_TAIL =
     ascii ''\<newline>''
     @ ascii ''IMPORTANT: If the user asks about:\<newline>''
     @ ascii ''- Current time, date, or day '' @ [8594] @ ascii '' Use get_current_datetime\<newline>''
     @ ascii ''- Patient age from birthdate '' @ [8594] @ ascii '' Use calculate_age\<newline>''
     @ ascii ''- Hospital department hours '' @ [8594] @ ascii '' Use get_working_hours\<newline>''
     @ ascii ''- Hospital policies or procedures '' @ [8594] @ ascii '' Use search_internal_docs\<newline>''
     @ ascii ''- Health information from web '' @ [8594] @ ascii '' Use web_search\<newline>''
     @ ascii ''\<newline>''
     @ ascii ''When you use a tool, mention it in your response like:\<newline>''
     @ ascii ''"Using get_current_datetime to check..." or "Searching hospital docs for..."\<newline>''
     @ ascii ''===== END TOOLS =====\<newline>''
     @ ascii ''    ''\<close>

text \<open>\<open>d[key]\<close>: a missing key raises \<open>KeyError\<close>, whose text is the quoted key.\<close>

definition dict_item :: "(pystr \<times> 'v) list \<Rightarrow> pystr \<Rightarrow> exn + 'v" where
  "dict_item d key =
     (case map_of d key of
        None \<Rightarrow> Inl (KeyError (apostrophe @ key @ apostrophe))
      | Some v \<Rightarrow> Inr v)"

record PromptTemplate =
  template :: pystr
  input_variables :: "pystr list"

text \<open>
  \<open>_create_prompt_template\<close>. The role is the string that the argument is: the value
  of the member for a \<open>UserRole\<close>. The default of \<open>get\<close> is evaluated before the call.
\<close>

definition create_prompt_template :: "pystr \<Rightarrow> exn + PromptTemplate" where
  "create_prompt_template user_role =
     and_then (dict_item ROLE_PROMPTS (UserRole_value GENERAL)) (\<lambda>general_prompt.
       let role_context =
             (case map_of ROLE_PROMPTS user_role of
                None \<Rightarrow> general_prompt
              | Some p \<Rightarrow> p)
       in Inr \<lparr> template = role_context @ TEMPLATE_BODY,
                input_variables = [ascii ''context'', ascii ''question''] \<rparr>)"

text \<open>\<open>needle in haystack\<close> on strings.\<close>

fun contains :: "'a list \<Rightarrow> 'a list \<Rightarrow> bool" where
  "contains needle [] = (needle = [])"
| "contains needle (x # xs) = (take (length needle) (x # xs) = needle \<or> contains needle xs)"

text \<open>
  \<open>s.replace(old, new)\<close>: every occurrence of \<open>old\<close>, from the left, without
  overlaps; an empty \<open>old\<close> matches before every character and at the end.
\<close>

function replace :: "'a list \<Rightarrow> 'a list \<Rightarrow> 'a list \<Rightarrow> 'a list" where
  "replace old new [] = (if old = [] then new else [])"
| "replace old new (x # xs) =
     (if old = [] then new @ x # replace old new xs
      else if take (length old) (x # xs) = old
           then new @ replace old new (drop (length old) (x # xs))
           else x # replace old new xs)"
  by pat_completeness auto
termination
  by (relation "measure (\<lambda>(old, new, s). length s)") auto

text \<open>The catalogue of the tools that \<open>query\<close> builds before it changes the template.\<close>

definition tool_line :: "nat \<Rightarrow> function_schema \<Rightarrow> pystr" where
  "tool_line i func =
     str_nat i @ ascii ''. '' @ fn_name func @ ascii '': '' @ fn_description func
     @ ascii ''\<newline>''"

definition tool_info_of :: "function_schema list \<Rightarrow> pystr" where
  "tool_info_of tool_schemas =
     (if tool_schemas \<noteq> []
      then TOOL_INFO_HEAD
           @ concat (map (\<lambda>(i, func). tool_line i func) (enumerate 1 tool_schemas))
           @ TOOL_INFO_TAIL
      else [])"

definition update_template :: "PromptTemplate \<Rightarrow> pystr \<Rightarrow> PromptTemplate" where
  "update_template prompt_template tool_info =
     (let original_template = template prompt_template
      in if \<not> contains (ascii ''AVAILABLE TOOLS'') original_template
         then prompt_template
                \<lparr> template :=
                    replace (ascii ''===== RESPONSE ====='')
                      (tool_info @ ascii ''\<newline>===== RESPONSE ====='')
                      original_template \<rparr>
         else prompt_template)"

text \<open>
  The chain and the chat provider. \<open>RetrievalQA.from_chain_type\<close> builds the chain from
  the retriever over the vector store, the prompt and the flag
  \<open>return_source_documents\<close>, or raises \<open>chain_error\<close>. \<open>invoke\<close> retrieves the chunks
  and calls the language model: it returns the result dictionary or raises.
\<close>

datatype qa_chain = RetrievalQA vector_store PromptTemplate bool

record chain_result =
  cr_result :: "pystr option"
  cr_source_documents :: "document list option"

record provider =
  chain_error :: "exn option"
  invoke :: "qa_chain \<Rightarrow> pystr \<Rightarrow> exn + chain_result"

definition from_chain_type ::
    "provider \<Rightarrow> vector_store \<Rightarrow> PromptTemplate \<Rightarrow> bool \<Rightarrow> exn + qa_chain" where
  "from_chain_type p vectorstore prompt return_source_documents =
     (case chain_error p of
        Some e \<Rightarrow> Inl e
      | None \<Rightarrow> Inr (RetrievalQA vectorstore prompt return_source_documents))"

text \<open>\<open>_extract_tools_used\<close>: the registered names that the answer mentions.\<close>

definition extract_tools_used :: "pylib \<Rightarrow> pystr \<Rightarrow> pystr list" where
  "extract_tools_used lib response =
     filter (\<lambda>tool_name. contains (str_lower lib tool_name) (str_lower lib response))
       (get_tool_names tool_registry)"

text \<open>The dictionary that \<open>query\<close> returns.\<close>

record query_result =
  qr_question :: pystr
  qr_answer :: pystr
  qr_sources :: "source_entry list"
  qr_user_role :: pystr
  qr_disclaimer :: pystr
  qr_processing_time_seconds :: pyfloat
  qr_tools_used :: "pystr list"

text \<open>
  The prompt that \<open>query\<close> hands to the chain, as its lines between the retriever and
  the chain build it: the schemas of the registry, the template of the role, and the tool
  catalogue put in front of the response section.
\<close>

definition query_prompt :: "UserRole \<Rightarrow> exn + PromptTemplate" where
  "query_prompt user_role =
     and_then (get_all_schemas tool_registry) (\<lambda>tool_schemas.
     and_then (create_prompt_template (UserRole_value user_role)) (\<lambda>prompt_template.
     Inr (update_template prompt_template (tool_info_of tool_schemas))))"

text \<open>
  \<open>RAGEngine.query\<close>. \<open>start_time\<close> is the clock reading \<open>FClock 0\<close>, the reading at
  the return is \<open>FClock 1\<close>.
\<close>

definition query ::
    "world \<Rightarrow> pylib \<Rightarrow> provider \<Rightarrow> vector_store \<Rightarrow> pystr \<Rightarrow> UserRole \<Rightarrow> bool
       \<Rightarrow> exn + query_result" where
  "query w lib p db question user_role include_sources =
     and_then (get_vectorstore w db) (\<lambda>vectorstore.
     and_then (query_prompt user_role) (\<lambda>prompt_template.
     and_then (from_chain_type p vectorstore prompt_template include_sources) (\<lambda>qa_chain.
     case invoke p qa_chain question of
       Inl e \<Rightarrow>
         Inr \<lparr> qr_question = question,
               qr_answer = cross_mark @ ascii '' Error processing query: '' @ str_exn e,
               qr_sources = [],
               qr_user_role = UserRole_value user_role,
               qr_disclaimer = DISCLAIMER,
               qr_processing_time_seconds = FRound (FSub (FClock 1) (FClock 0)) 2,
               qr_tools_used = [] \<rparr>
     | Inr result \<Rightarrow>
         Inr \<lparr> qr_question = question,
               qr_answer = (case cr_result result of None \<Rightarrow> [] | Some a \<Rightarrow> a),
               qr_sources =
                 (case cr_source_documents result of
                    Some docs \<Rightarrow> if include_sources then process_sources docs else []
                  | None \<Rightarrow> []),
               qr_user_role = UserRole_value user_role,
               qr_disclaimer = DISCLAIMER,
               qr_processing_time_seconds = FRound (FSub (FClock 1) (FClock 0)) 2,
               qr_tools_used =
                 extract_tools_used lib
                   (case cr_result result of None \<Rightarrow> [] | Some a \<Rightarrow> a) \<rparr>)))"

section \<open>Sample inputs\<close>

text \<open>
  Inputs for the examples below. The texts of the examples are single short lines without
  white space at their ends, and each fits into the chunk size of its example; the
  library's splitter returns such a text as one chunk. \<open>sample_split_text\<close> is that
  answer, and the examples use it on no other text.
\<close>

definition sample_split_text :: "int \<Rightarrow> int \<Rightarrow> pystr \<Rightarrow> exn + pystr list" where
  "sample_split_text csize coverlap text = Inr [text]"

definition sample_doc :: "string \<Rightarrow> string \<Rightarrow> document" where
  "sample_doc path text =
     \<lparr> page_content = ascii text,
       metadata = \<lparr> md_source = Some (ascii path), md_chunk_index = None,
                    md_chunk_size = None \<rparr> \<rparr>"

definition sample_world :: world where
  "sample_world =
     \<lparr> split_text = sample_split_text,
       checks_ranges = True,
       path_exists = True,
       loader_load = Inr [sample_doc ''docs/visits.txt'' ''Visiting hours are 10:00-12:00.''],
       connect_error = None,
       count_error = None,
       add_error = None \<rparr>"

definition sample_processor :: "int \<Rightarrow> int \<Rightarrow> document_processor" where
  "sample_processor csize coverlap =
     \<lparr> documents_path = ascii ''./data/sample_docs'', chunk_size = csize,
       chunk_overlap = coverlap \<rparr>"

definition sample_lib :: pylib where
  "sample_lib =
     \<lparr> ZoneInfo = (\<lambda>key. if key = PStr (ascii ''UTC'') then Inr (ZoneInfoKey (ascii ''UTC''))
                          else Inl (KeyError (ascii ''No time zone found''))),
       datetime_now = (\<lambda>tz. Inr \<lparr> dt_weekday = 0,
                                   dt_isoformat = ascii ''2025-11-17T23:30:45+00:00'',
                                   dt_date = ascii ''2025-11-17'',
                                   dt_time = ascii ''23:30:45'',
                                   dt_timestamp = 1763422245,
                                   dt_hour = 23, dt_minute = 30, dt_second = 45 \<rparr>),
       strptime_date = (\<lambda>v. Inl (ValueError (ascii ''time data does not match format''))),
       today = \<lparr> year = 2025, month = 11, day = 17 \<rparr>,
       days_between = (\<lambda>a b. 0),
       strftime_date = (\<lambda>d. ascii ''2025-11-17''),
       str_lower = (\<lambda>s. s),
       str_strip = (\<lambda>s. s) \<rparr>"

definition sample_provider :: provider where
  "sample_provider =
     \<lparr> chain_error = None,
       invoke = (\<lambda>chain question. Inl (LibraryError (ascii ''429 quota exceeded''))) \<rparr>"

definition sample_chunk :: "string \<Rightarrow> string \<Rightarrow> int \<Rightarrow> document" where
  "sample_chunk path text i =
     \<lparr> page_content = ascii text,
       metadata = \<lparr> md_source = Some (ascii path), md_chunk_index = Some i,
                    md_chunk_size = Some (int (length text)) \<rparr> \<rparr>"

section \<open>Properties: raising and catching, strings\<close>

lemma and_then_Inr [simp]: "and_then (Inr v) f = f v"
  by (simp add: and_then_def)

lemma and_then_Inl [simp]: "and_then (Inl e) f = Inl e"
  by (simp add: and_then_def)

lemma try_except_Inr [simp]: "try_except (Inr v) h = Inr v"
  by (simp add: try_except_def)

lemma try_except_Inl [simp]: "try_except (Inl e) h = h e"
  by (simp add: try_except_def)

lemma length_ascii: "length (ascii s) = length s"
  by (simp add: ascii_def)

lemma ascii_code_points: "ascii [] = []" "ascii (c # cs) = of_char c # ascii cs"
  by (simp_all add: ascii_def)

lemma ascii_eq_iff [simp]: "(ascii a = ascii b) = (a = b)"
  by (simp add: ascii_def inj_map_eq_map inj_on_def)

section \<open>Properties: the source entries of a query\<close>

lemma length_process_sources: "length (process_sources docs) = length docs"
  by (simp add: process_sources_def)

lemma nth_process_sources:
  "i < length docs \<Longrightarrow> process_sources docs ! i = process_source i (docs ! i)"
  by (simp add: process_sources_def nth_enumerate_eq)

text \<open>The score of an entry is a function of its rank alone.\<close>

lemma relevance_score_by_rank:
  "i < length docs \<Longrightarrow> relevance_score (process_sources docs ! i) = rank_score i"
  by (simp add: nth_process_sources process_source_def)

text \<open>
  Claim C4, as the code has it. The preview of a retrieved chunk is the first 200
  characters of its content, followed by three dots when the content is longer than 200
  characters. So it is the whole content when that has at most 200 characters, and it
  never has more than 203 characters.
\<close>

theorem content_preview_first_200_then_dots:
  assumes "i < length docs"
  shows "content_preview (process_sources docs ! i) =
           take 200 (page_content (docs ! i)) @
           (if length (page_content (docs ! i)) > 200 then ascii ''...'' else [])
         \<and> length (content_preview (process_sources docs ! i)) \<le> 203
         \<and> (length (page_content (docs ! i)) \<le> 200 \<longrightarrow>
              content_preview (process_sources docs ! i) = page_content (docs ! i))"
  using assms
  by (simp add: nth_process_sources process_source_def preview_def length_ascii)

theorem content_preview_first_200_then_dots_witness:
  "0 < length [sample_doc ''docs/visits.txt'' ''Visiting hours are 10:00-12:00.'']
   \<and> content_preview
         (process_sources [sample_doc ''docs/visits.txt'' ''Visiting hours are 10:00-12:00.''] ! 0)
       = ascii ''Visiting hours are 10:00-12:00.''"
  using content_preview_first_200_then_dots
    [of 0 "[sample_doc ''docs/visits.txt'' ''Visiting hours are 10:00-12:00.'']"]
  by (simp add: sample_doc_def length_ascii)

text \<open>
  Claim C4 as stated fails: a chunk of 201 characters gets a preview of 203 characters,
  which is not the first 200 characters of the chunk.
\<close>

theorem content_preview_longer_than_200:
  "length (content_preview (process_sources
      [\<lparr>page_content = replicate 201 97,
        metadata = \<lparr>md_source = None, md_chunk_index = None, md_chunk_size = None\<rparr>\<rparr>] ! 0))
     = 203
   \<and> content_preview (process_sources
      [\<lparr>page_content = replicate 201 97,
        metadata = \<lparr>md_source = None, md_chunk_index = None, md_chunk_size = None\<rparr>\<rparr>] ! 0)
     \<noteq> take 200 (replicate 201 97)"
  by (simp add: process_sources_def process_source_def preview_def length_ascii ascii_def)

section \<open>Properties: splitting\<close>

lemma new_text_splitter_larger:
  "coverlap > csize \<Longrightarrow> \<exists>m. new_text_splitter w csize coverlap = Inl (ValueError m)"
  by (simp add: new_text_splitter_def)

lemma new_text_splitter_larger_positive:
  "coverlap > csize \<Longrightarrow> csize > 0 \<Longrightarrow>
     new_text_splitter w csize coverlap = Inl (ValueError (larger_overlap_message coverlap csize))"
  by (simp add: new_text_splitter_def)

lemma new_text_splitter_equal:
  "csize > 0 \<Longrightarrow> new_text_splitter w csize csize = Inr ()"
  by (simp add: new_text_splitter_def)

text \<open>
  Claim C3, as the code has it. \<open>split_documents\<close> has no check of its own; the
  constructor of the text splitter that it builds refuses a chunk overlap larger than the
  chunk size. So with \<open>chunk_overlap > chunk_size\<close> the method raises a \<open>ValueError\<close>
  and cuts nothing (for a positive chunk size, the one with the library's text about the
  larger overlap). With \<open>chunk_overlap = chunk_size > 0\<close> nothing is refused: the
  documents are cut, the chunks are indexed and returned, and only an exception of the
  cutting itself is raised.
\<close>

theorem split_documents_raises_when_overlap_larger:
  "(chunk_overlap self > chunk_size self
      \<longrightarrow> (\<exists>m. split_documents self w docs = Inl (ValueError m)))
   \<and> (chunk_overlap self > chunk_size self \<and> chunk_size self > 0
      \<longrightarrow> split_documents self w docs
           = Inl (ValueError (larger_overlap_message (chunk_overlap self) (chunk_size self))))
   \<and> (chunk_overlap self = chunk_size self \<and> chunk_size self > 0
      \<longrightarrow> (\<forall>raw. create_documents w (chunk_size self) (chunk_overlap self) docs = Inr raw
                \<longrightarrow> split_documents self w docs
                     = Inr (map (\<lambda>(i, chunk). tag_chunk i chunk) (enumerate 0 raw)))
          \<and> (\<forall>e. create_documents w (chunk_size self) (chunk_overlap self) docs = Inl e
                \<longrightarrow> split_documents self w docs = Inl e))"
proof (intro conjI impI allI)
  assume "chunk_overlap self > chunk_size self"
  then obtain m where
    "new_text_splitter w (chunk_size self) (chunk_overlap self) = Inl (ValueError m)"
    using new_text_splitter_larger by blast
  then show "\<exists>m. split_documents self w docs = Inl (ValueError m)"
    by (simp add: split_documents_def)
next
  assume "chunk_overlap self > chunk_size self \<and> chunk_size self > 0"
  then show "split_documents self w docs
           = Inl (ValueError (larger_overlap_message (chunk_overlap self) (chunk_size self)))"
    by (simp add: split_documents_def new_text_splitter_larger_positive)
next
  fix raw
  assume "chunk_overlap self = chunk_size self \<and> chunk_size self > 0"
    and "create_documents w (chunk_size self) (chunk_overlap self) docs = Inr raw"
  then show "split_documents self w docs
               = Inr (map (\<lambda>(i, chunk). tag_chunk i chunk) (enumerate 0 raw))"
    by (simp add: split_documents_def new_text_splitter_equal)
next
  fix e
  assume "chunk_overlap self = chunk_size self \<and> chunk_size self > 0"
    and "create_documents w (chunk_size self) (chunk_overlap self) docs = Inl e"
  then show "split_documents self w docs = Inl e"
    by (simp add: split_documents_def new_text_splitter_equal)
qed

lemma larger_overlap_message_2000_1000:
  "larger_overlap_message 2000 1000
     = ascii ''Got a larger chunk overlap (2000) than chunk size (1000), should be smaller.''"
  by (simp add: larger_overlap_message_def str_int_def ascii_code_points)

theorem split_documents_raises_when_overlap_larger_witness:
  "chunk_overlap (sample_processor 1000 2000) > chunk_size (sample_processor 1000 2000)
   \<and> chunk_size (sample_processor 1000 2000) > 0
   \<and> split_documents (sample_processor 1000 2000) sample_world
         [sample_doc ''docs/visits.txt'' ''Visiting hours are 10:00-12:00.'']
       = Inl (ValueError (ascii
           ''Got a larger chunk overlap (2000) than chunk size (1000), should be smaller.''))"
  using split_documents_raises_when_overlap_larger
    [of "sample_processor 1000 2000" sample_world
        "[sample_doc ''docs/visits.txt'' ''Visiting hours are 10:00-12:00.'']"]
  by (simp add: sample_processor_def larger_overlap_message_2000_1000)

text \<open>
  Claim C3 as stated fails: with \<open>chunk_overlap = chunk_size = 1000\<close> no error is raised,
  and \<open>split_documents\<close> returns the one chunk of a short document.
\<close>

theorem split_documents_equal_overlap_returns_chunks:
  "split_documents (sample_processor 1000 1000) sample_world [sample_doc ''a.txt'' ''abc'']
     = Inr [sample_chunk ''a.txt'' ''abc'' 0]"
  by (simp add: split_documents_def new_text_splitter_def sample_processor_def
        sample_world_def sample_split_text_def sample_doc_def sample_chunk_def tag_chunk_def
        enumerate_eq_zip length_ascii)

lemma create_documents_Inr:
  "create_documents w csize coverlap docs = Inr raw \<Longrightarrow>
     \<exists>groups. length groups = length docs
       \<and> (\<forall>j<length docs. split_text w csize coverlap (page_content (docs ! j)) = Inr (groups ! j))
       \<and> raw = concat (map (\<lambda>(doc, pieces).
                               map (\<lambda>piece. \<lparr> page_content = piece, metadata = metadata doc \<rparr>)
                                   pieces)
                            (zip docs groups))"
proof (induction docs arbitrary: raw)
  case Nil
  then show ?case by simp
next
  case (Cons doc docs)
  from Cons.prems obtain pieces rest where
    pieces: "split_text w csize coverlap (page_content doc) = Inr pieces" and
    rest: "create_documents w csize coverlap docs = Inr rest" and
    raw: "raw = map (\<lambda>piece. \<lparr> page_content = piece, metadata = metadata doc \<rparr>) pieces @ rest"
    by (auto simp add: and_then_def split: sum.splits)
  from Cons.IH [OF rest] obtain groups where
    len: "length groups = length docs" and
    each: "\<forall>j<length docs. split_text w csize coverlap (page_content (docs ! j)) = Inr (groups ! j)"
    and cat: "rest = concat (map (\<lambda>(doc, pieces).
                               map (\<lambda>piece. \<lparr> page_content = piece, metadata = metadata doc \<rparr>)
                                   pieces)
                            (zip docs groups))"
    by blast
  have "\<forall>j<length (doc # docs).
          split_text w csize coverlap (page_content ((doc # docs) ! j))
            = Inr ((pieces # groups) ! j)"
    using pieces each by (simp add: nth_Cons split: nat.splits)
  with len raw cat show ?case
    by (intro exI [of _ "pieces # groups"]) simp
qed

lemma untagged_fields:
  "map (\<lambda>c. (page_content c, md_source (metadata c)))
       (map (\<lambda>(i, chunk). tag_chunk i chunk) (enumerate 0 raw))
     = map (\<lambda>c. (page_content c, md_source (metadata c))) raw"
  by (rule nth_equalityI) (simp_all add: nth_enumerate_eq tag_chunk_def)

lemma indices_tagged:
  "map (\<lambda>c. md_chunk_index (metadata c)) (map (\<lambda>(i, chunk). tag_chunk i chunk) (enumerate 0 raw))
     = map (\<lambda>i. Some (int i)) [0..<length raw]"
  by (rule nth_equalityI) (simp_all add: nth_enumerate_eq tag_chunk_def)

lemma the_indices_tagged:
  "map (\<lambda>c. the (md_chunk_index (metadata c)))
       (map (\<lambda>(i, chunk). tag_chunk i chunk) (enumerate 0 raw))
     = map int [0..<length raw]"
  by (rule nth_equalityI) (simp_all add: nth_enumerate_eq tag_chunk_def)

lemma sizes_tagged:
  "c \<in> set (map (\<lambda>(i, chunk). tag_chunk i chunk) (enumerate 0 raw)) \<Longrightarrow>
     md_chunk_size (metadata c) = Some (int (length (page_content c)))"
  by (auto simp add: tag_chunk_def)

lemma sorted_ints: "sorted_wrt (<) (map int [0..<n])"
  by (simp add: sorted_wrt_map)

lemma distinct_ints: "distinct (map int [0..<n])"
  by (simp add: distinct_map inj_on_def)

lemma split_documents_Inr:
  "split_documents self w docs = Inr chunks \<Longrightarrow>
     \<exists>raw. create_documents w (chunk_size self) (chunk_overlap self) docs = Inr raw
         \<and> chunks = map (\<lambda>(i, chunk). tag_chunk i chunk) (enumerate 0 raw)"
  by (auto simp add: split_documents_def and_then_def split: sum.splits)

lemma split_two_documents:
  "split_documents (sample_processor 1000 200) sample_world
     [sample_doc ''docs/visits.txt'' ''Visiting hours are 10:00-12:00.'',
      sample_doc ''docs/billing.txt'' ''Billing is open 10:00-16:00.'']
   = Inr [sample_chunk ''docs/visits.txt'' ''Visiting hours are 10:00-12:00.'' 0,
          sample_chunk ''docs/billing.txt'' ''Billing is open 10:00-16:00.'' 1]"
  by (simp add: split_documents_def new_text_splitter_def sample_processor_def
        sample_world_def sample_split_text_def sample_doc_def sample_chunk_def tag_chunk_def
        enumerate_eq_zip upt_rec length_ascii)

text \<open>
  Claim C5. When \<open>split_documents\<close> returns, the chunk at position \<open>i\<close> of the whole
  batch has \<open>chunk_index = i\<close>: the indices are \<open>0, 1, 2, ...\<close> over all the documents
  of the batch, strictly increasing and without repetition, and never start again at a
  document boundary. The \<open>chunk_size\<close> of every chunk is the length of its own text.
  The chunks are, document after document, the pieces that the text of the document is
  cut into, and each carries the \<open>source\<close> of the document that it comes from.
\<close>

theorem split_documents_chunk_index:
  assumes "split_documents self w documents = Inr chunks"
  shows "map (\<lambda>c. md_chunk_index (metadata c)) chunks
           = map (\<lambda>i. Some (int i)) [0..<length chunks]
         \<and> sorted_wrt (<) (map (\<lambda>c. the (md_chunk_index (metadata c))) chunks)
         \<and> distinct (map (\<lambda>c. the (md_chunk_index (metadata c))) chunks)
         \<and> (\<forall>c\<in>set chunks. md_chunk_size (metadata c) = Some (int (length (page_content c))))
         \<and> (\<exists>groups. length groups = length documents
               \<and> (\<forall>j<length documents.
                     split_text w (chunk_size self) (chunk_overlap self)
                       (page_content (documents ! j)) = Inr (groups ! j))
               \<and> map (\<lambda>c. (page_content c, md_source (metadata c))) chunks
                   = concat (map (\<lambda>(doc, pieces).
                                    map (\<lambda>piece. (piece, md_source (metadata doc))) pieces)
                                 (zip documents groups)))"
proof -
  from split_documents_Inr [OF assms] obtain raw where
    raw: "create_documents w (chunk_size self) (chunk_overlap self) documents = Inr raw" and
    chunks: "chunks = map (\<lambda>(i, chunk). tag_chunk i chunk) (enumerate 0 raw)"
    by blast
  have len: "length chunks = length raw"
    by (simp add: chunks)
  have idx: "map (\<lambda>c. md_chunk_index (metadata c)) chunks
               = map (\<lambda>i. Some (int i)) [0..<length chunks]"
    unfolding len unfolding chunks by (rule indices_tagged)
  have the_idx: "map (\<lambda>c. the (md_chunk_index (metadata c))) chunks = map int [0..<length raw]"
    unfolding chunks by (rule the_indices_tagged)
  have sizes: "\<forall>c\<in>set chunks. md_chunk_size (metadata c) = Some (int (length (page_content c)))"
    unfolding chunks using sizes_tagged by blast
  from create_documents_Inr [OF raw] obtain groups where
    glen: "length groups = length documents" and
    each: "\<forall>j<length documents.
             split_text w (chunk_size self) (chunk_overlap self)
               (page_content (documents ! j)) = Inr (groups ! j)" and
    cat: "raw = concat (map (\<lambda>(doc, pieces).
                               map (\<lambda>piece. \<lparr> page_content = piece, metadata = metadata doc \<rparr>)
                                   pieces)
                            (zip documents groups))"
    by blast
  have "map (\<lambda>c. (page_content c, md_source (metadata c))) chunks
          = map (\<lambda>c. (page_content c, md_source (metadata c))) raw"
    unfolding chunks by (rule untagged_fields)
  also have "\<dots> = concat (map (\<lambda>(doc, pieces).
                                    map (\<lambda>piece. (piece, md_source (metadata doc))) pieces)
                                 (zip documents groups))"
    unfolding cat by (simp add: map_concat case_prod_unfold comp_def)
  finally have src: "map (\<lambda>c. (page_content c, md_source (metadata c))) chunks
          = concat (map (\<lambda>(doc, pieces).
                           map (\<lambda>piece. (piece, md_source (metadata doc))) pieces)
                        (zip documents groups))" .
  from glen each src have origin:
    "\<exists>groups. length groups = length documents
        \<and> (\<forall>j<length documents.
              split_text w (chunk_size self) (chunk_overlap self)
                (page_content (documents ! j)) = Inr (groups ! j))
        \<and> map (\<lambda>c. (page_content c, md_source (metadata c))) chunks
            = concat (map (\<lambda>(doc, pieces).
                             map (\<lambda>piece. (piece, md_source (metadata doc))) pieces)
                          (zip documents groups))"
    by blast
  have srt: "sorted_wrt (<) (map (\<lambda>c. the (md_chunk_index (metadata c))) chunks)"
    unfolding the_idx by (rule sorted_ints)
  have dst: "distinct (map (\<lambda>c. the (md_chunk_index (metadata c))) chunks)"
    unfolding the_idx by (rule distinct_ints)
  from idx srt dst sizes origin show ?thesis
    by (intro conjI)
qed

theorem split_documents_chunk_index_witness:
  "split_documents (sample_processor 1000 200) sample_world
     [sample_doc ''docs/visits.txt'' ''Visiting hours are 10:00-12:00.'',
      sample_doc ''docs/billing.txt'' ''Billing is open 10:00-16:00.'']
   = Inr [sample_chunk ''docs/visits.txt'' ''Visiting hours are 10:00-12:00.'' 0,
          sample_chunk ''docs/billing.txt'' ''Billing is open 10:00-16:00.'' 1]
   \<and> map (\<lambda>c. md_chunk_index (metadata c))
         [sample_chunk ''docs/visits.txt'' ''Visiting hours are 10:00-12:00.'' 0,
          sample_chunk ''docs/billing.txt'' ''Billing is open 10:00-16:00.'' 1]
       = [Some 0, Some 1]
   \<and> map (\<lambda>c. md_source (metadata c))
         [sample_chunk ''docs/visits.txt'' ''Visiting hours are 10:00-12:00.'' 0,
          sample_chunk ''docs/billing.txt'' ''Billing is open 10:00-16:00.'' 1]
       = [Some (ascii ''docs/visits.txt''), Some (ascii ''docs/billing.txt'')]"
  using split_documents_chunk_index [OF split_two_documents] split_two_documents
  by (simp add: sample_chunk_def)

section \<open>Properties: the vector store\<close>

lemma get_document_count_cases:
  "get_document_count w db =
     Inr (if connect_error w = None \<and> count_error w = None
          then int (length (collection db)) else 0)"
  by (simp add: get_document_count_def get_vectorstore_def collection_count_def
           split: option.splits)

text \<open>
  Claim C9. \<open>get_document_count\<close> never raises: it returns an integer that is not
  negative; when opening the store or counting the collection raises, the integer is 0,
  and otherwise it is the number of stored entries.
\<close>

theorem get_document_count_never_raises:
  "\<exists>n. get_document_count w db = Inr n \<and> 0 \<le> n
       \<and> (connect_error w \<noteq> None \<or> count_error w \<noteq> None \<longrightarrow> n = 0)
       \<and> (connect_error w = None \<and> count_error w = None
            \<longrightarrow> n = int (length (collection db)))"
  by (simp add: get_document_count_cases)

theorem get_document_count_never_raises_witness:
  "connect_error (sample_world \<lparr> connect_error := Some (LibraryError (ascii ''unreachable'')) \<rparr>)
     \<noteq> None
   \<and> get_document_count
         (sample_world \<lparr> connect_error := Some (LibraryError (ascii ''unreachable'')) \<rparr>)
         \<lparr> collection = [sample_doc ''a.txt'' ''text''] \<rparr>
       = Inr 0"
  using get_document_count_never_raises
    [of "sample_world \<lparr> connect_error := Some (LibraryError (ascii ''unreachable'')) \<rparr>"
        "\<lparr> collection = [sample_doc ''a.txt'' ''text''] \<rparr>"]
  by (auto simp add: sample_world_def)

lemma existing_count_cases:
  "existing_count w db =
     (if connect_error w = None \<and> count_error w = None \<and> collection db \<noteq> []
      then Some (int (length (collection db))) else None)"
  by (simp add: existing_count_def get_vectorstore_def collection_count_def
           split: option.splits)

text \<open>
  Claim C7, as the code has it. With \<open>force_reindex\<close> false and a collection that
  holds at least one entry, \<open>ingest_documents\<close> is a no-op when the check reads the
  collection, that is when neither \<open>Chroma(...)\<close> nor \<open>_collection.count()\<close> raises: it
  returns \<open>(0, n, 0.0)\<close> with \<open>n\<close> the number of entries and leaves the collection as it
  was, whatever the loader, the splitter and the embedding call would do. When the check
  raises, the exception is dropped and the call does what it does with \<open>force_reindex\<close>
  true.
\<close>

theorem ingest_documents_noop_when_check_succeeds:
  assumes "\<not> force_reindex" and "collection db \<noteq> []"
  shows "(connect_error w = None \<and> count_error w = None
            \<longrightarrow> ingest_documents self w force_reindex db
                 = (Inr (0, int (length (collection db)), FLit 0), db))
         \<and> (connect_error w \<noteq> None \<or> count_error w \<noteq> None
            \<longrightarrow> ingest_documents self w force_reindex db = ingest_documents self w True db)"
  using assms by (simp add: ingest_documents_def existing_count_cases)

theorem ingest_documents_noop_when_check_succeeds_witness:
  "connect_error sample_world = None \<and> count_error sample_world = None
   \<and> collection \<lparr> collection = [sample_doc ''a.txt'' ''text''] \<rparr> \<noteq> []
   \<and> ingest_documents (sample_processor 1000 200) sample_world False
         \<lparr> collection = [sample_doc ''a.txt'' ''text''] \<rparr>
       = (Inr (0, 1, FLit 0), \<lparr> collection = [sample_doc ''a.txt'' ''text''] \<rparr>)"
  using ingest_documents_noop_when_check_succeeds
    [of False "\<lparr> collection = [sample_doc ''a.txt'' ''text''] \<rparr>" sample_world
        "sample_processor 1000 200"]
  by (simp add: sample_world_def)

text \<open>
  Claim C7 as stated fails: the collection holds one entry and \<open>force_reindex\<close> is false,
  but counting the collection raises. The exception is dropped, the document is loaded,
  split and embedded, the call returns \<open>(1, 1, elapsed)\<close> and the collection holds the
  chunk twice.
\<close>

theorem ingest_documents_check_raises_runs_pipeline:
  "ingest_documents (sample_processor 1000 200)
     (sample_world \<lparr> count_error := Some (LibraryError (ascii ''count failed'')) \<rparr>) False
     \<lparr> collection = [sample_chunk ''docs/visits.txt'' ''Visiting hours are 10:00-12:00.'' 0] \<rparr>
   = (Inr (1, 1, FSub (FClock 1) (FClock 0)),
      \<lparr> collection = [sample_chunk ''docs/visits.txt'' ''Visiting hours are 10:00-12:00.'' 0,
                      sample_chunk ''docs/visits.txt'' ''Visiting hours are 10:00-12:00.'' 0] \<rparr>)"
  by (simp add: ingest_documents_def existing_count_cases ingest_pipeline_def load_documents_def
        split_documents_def new_text_splitter_def from_documents_def sample_processor_def
        sample_world_def sample_split_text_def sample_doc_def sample_chunk_def tag_chunk_def
        enumerate_eq_zip length_ascii)

section \<open>Properties: the tools\<close>

lemma validate_params_datetime [simp]: "validate_params GetCurrentDateTimeTool kw = Inr True"
  by (simp add: validate_params_def)

lemma get_current_datetime_execute_formats:
  "\<exists>success data error.
     get_current_datetime_execute lib timezone
       = Inr (format_result GetCurrentDateTimeTool success data error)"
proof (cases "ZoneInfo lib timezone")
  case (Inl e)
  then show ?thesis
    by (simp add: get_current_datetime_execute_def) blast
next
  case (Inr tz)
  show ?thesis
  proof (cases "datetime_now lib tz")
    case (Inl e)
    with Inr show ?thesis
      by (simp add: get_current_datetime_execute_def) blast
  next
    case now: (Inr now)
    show ?thesis
    proof (cases "index days (dt_weekday now)")
      case (Inl e)
      with Inr now show ?thesis
        by (simp add: get_current_datetime_execute_def) blast
    next
      case day: (Inr day_name)
      with Inr now show ?thesis
        by (simp add: get_current_datetime_execute_def) blast
    qed
  qed
qed

lemma get_current_datetime_execute_unknown_zone:
  assumes "\<forall>z. ZoneInfo lib timezone \<noteq> Inr z"
  shows "get_current_datetime_execute lib timezone
           = Inr (format_result GetCurrentDateTimeTool False PNone
                    (PStr (ascii ''Error getting datetime: ''
                           @ str_exn (no_attribute timezone ''utc''))))"
proof (cases "ZoneInfo lib timezone")
  case (Inl e)
  then show ?thesis
    by (simp add: get_current_datetime_execute_def)
next
  case (Inr tz)
  with assms show ?thesis by simp
qed

lemma str_no_attribute_utc:
  "str_exn (no_attribute (PStr tz) ''utc'')
     = apostrophe @ ascii ''str'' @ apostrophe @ ascii '' object has no attribute ''
       @ apostrophe @ ascii ''utc'' @ apostrophe"
  by (simp add: no_attribute_def)

text \<open>
  Claim C10. \<open>GetCurrentDateTimeTool.execute\<close> never raises: whatever the keyword
  arguments, it returns the dictionary of \<open>format_result\<close>, with its \<open>success\<close> flag.
  For a time zone string that \<open>ZoneInfo\<close> does not accept, the result has
  \<open>success = False\<close> and the error text of the failed read of \<open>timezone.utc\<close> on a
  string: the fallback to UTC is never taken.
\<close>

theorem get_current_datetime_never_raises:
  "(\<exists>success data error.
      execute lib GetCurrentDateTimeTool kw
        = Inr (format_result GetCurrentDateTimeTool success data error))
   \<and> (kw (ascii ''timezone'') = Some (PStr tz) \<and> (\<forall>z. ZoneInfo lib (PStr tz) \<noteq> Inr z)
        \<longrightarrow> execute lib GetCurrentDateTimeTool kw
             = Inr (format_result GetCurrentDateTimeTool False PNone
                      (PStr (ascii ''Error getting datetime: ''
                             @ apostrophe @ ascii ''str'' @ apostrophe
                             @ ascii '' object has no attribute ''
                             @ apostrophe @ ascii ''utc'' @ apostrophe))))"
proof (intro conjI impI)
  show "\<exists>success data error.
          execute lib GetCurrentDateTimeTool kw
            = Inr (format_result GetCurrentDateTimeTool success data error)"
    by (simp add: get_current_datetime_execute_formats)
next
  assume h: "kw (ascii ''timezone'') = Some (PStr tz) \<and> (\<forall>z. ZoneInfo lib (PStr tz) \<noteq> Inr z)"
  then have "execute lib GetCurrentDateTimeTool kw = get_current_datetime_execute lib (PStr tz)"
    by (simp add: with_default_def)
  with h show "execute lib GetCurrentDateTimeTool kw
             = Inr (format_result GetCurrentDateTimeTool False PNone
                      (PStr (ascii ''Error getting datetime: ''
                             @ apostrophe @ ascii ''str'' @ apostrophe
                             @ ascii '' object has no attribute ''
                             @ apostrophe @ ascii ''utc'' @ apostrophe)))"
    by (simp add: get_current_datetime_execute_unknown_zone str_no_attribute_utc)
qed

theorem get_current_datetime_never_raises_witness:
  "ZoneInfo sample_lib (PStr (ascii ''Mars/Olympus'')) = Inl (KeyError (ascii ''No time zone found''))
   \<and> execute sample_lib GetCurrentDateTimeTool
         [ascii ''timezone'' \<mapsto> PStr (ascii ''Mars/Olympus'')]
     = Inr (PDict [(ascii ''success'', PBool False),
                   (ascii ''data'', PNone),
                   (ascii ''error'',
                    PStr (ascii ''Error getting datetime: ''
                          @ apostrophe @ ascii ''str'' @ apostrophe
                          @ ascii '' object has no attribute ''
                          @ apostrophe @ ascii ''utc'' @ apostrophe)),
                   (ascii ''tool_name'', PStr (ascii ''get_current_datetime''))])"
  using get_current_datetime_never_raises
    [of sample_lib "[ascii ''timezone'' \<mapsto> PStr (ascii ''Mars/Olympus'')]"
        "ascii ''Mars/Olympus''"]
  by (simp add: sample_lib_def format_result_def)

lemma tools_tool_registry:
  "tools tool_registry =
     [(ascii ''get_current_datetime'', GetCurrentDateTimeTool),
      (ascii ''calculate_age'', CalculateAgeTool),
      (ascii ''get_working_hours'', GetWorkingHoursTool),
      (ascii ''search_internal_docs'', SearchInternalDocsTool),
      (ascii ''web_search'', WebSearchTool)]"
  by (simp add: tool_registry_def initialize_tools_def register_tool_def)

lemma get_tool_calculate_age:
  "get_tool tool_registry (ascii ''calculate_age'') = Some CalculateAgeTool"
  by (simp add: get_tool_def tools_tool_registry)

lemma try_except_returns:
  "try_except body (\<lambda>e. Inr (h e)) \<noteq> Inl e'"
  by (simp add: try_except_def split: sum.splits)

text \<open>
  The only exception that leaves \<open>execute\<close> is the \<open>TypeError\<close> of a call that
  lacks an argument: every body catches the rest, and with it the \<open>ValueError\<close> of
  \<open>validate_params\<close>.
\<close>

lemma execute_raises_only_TypeError:
  assumes "execute lib t kw = Inl e"
  shows "\<exists>m. e = TypeError m"
proof (cases t)
  case GetCurrentDateTimeTool
  with assms show ?thesis
    by (simp add: get_current_datetime_execute_def try_except_returns)
next
  case CalculateAgeTool
  with assms show ?thesis
    by (auto simp add: calculate_age_execute_def missing_argument_def try_except_def
          split: option.splits sum.splits if_splits)
next
  case GetWorkingHoursTool
  with assms show ?thesis
    by (auto simp add: get_working_hours_execute_def missing_argument_def try_except_returns
          split: option.splits)
next
  case SearchInternalDocsTool
  with assms show ?thesis
    by (auto simp add: search_internal_docs_execute_def missing_argument_def
          try_except_returns split: option.splits)
next
  case WebSearchTool
  with assms show ?thesis
    by (auto simp add: web_search_execute_def missing_argument_def try_except_returns
          split: option.splits)
qed

text \<open>
  Claim C2 fails on the code. For a registered tool and keyword arguments that lack one
  of its required parameters, \<open>execute_tool\<close> raises \<open>TypeError\<close>: the call of
  \<open>execute\<close> fails while it binds its arguments, before \<open>validate_params\<close> and the
  \<open>try\<close> of the body are reached, and the registry catches nothing.
\<close>

theorem execute_tool_missing_required_raises_TypeError:
  assumes "get_tool tool_registry tool_name = Some t"
    and "schema t = Some s"
    and "required \<in> set (required_params s)"
    and "kw required = None"
  shows "\<exists>m. execute_tool lib tool_registry tool_name kw = Inl (TypeError m)"
proof (cases t)
  case GetCurrentDateTimeTool
  with assms show ?thesis by auto
next
  case CalculateAgeTool
  with assms show ?thesis by (auto simp add: execute_tool_def missing_argument_def)
next
  case GetWorkingHoursTool
  with assms show ?thesis by (auto simp add: execute_tool_def missing_argument_def)
next
  case SearchInternalDocsTool
  with assms show ?thesis by (auto simp add: execute_tool_def missing_argument_def)
next
  case WebSearchTool
  with assms show ?thesis by (auto simp add: execute_tool_def missing_argument_def)
qed

theorem execute_tool_missing_required_raises_TypeError_witness:
  "get_tool tool_registry (ascii ''calculate_age'') = Some CalculateAgeTool
   \<and> execute_tool sample_lib tool_registry (ascii ''calculate_age'') Map.empty
     = Inl (TypeError (ascii ''CalculateAgeTool''
                       @ ascii ''.execute() missing 1 required positional argument: ''
                       @ apostrophe @ ascii ''birthdate'' @ apostrophe))"
  using execute_tool_missing_required_raises_TypeError
    [OF get_tool_calculate_age, of _ "ascii ''birthdate''" Map.empty sample_lib]
  by (simp add: execute_tool_def get_tool_calculate_age missing_argument_def)

section \<open>Properties: prompts and queries\<close>

lemma map_of_ROLE_PROMPTS:
  "map_of ROLE_PROMPTS role =
     (if role = ascii ''doctor'' then Some DOCTOR_PROMPT
      else if role = ascii ''receptionist'' then Some RECEPTIONIST_PROMPT
      else if role = ascii ''billing'' then Some BILLING_PROMPT
      else if role = ascii ''general'' then Some GENERAL_PROMPT
      else None)"
  by (simp add: ROLE_PROMPTS_def)

lemma create_prompt_template_eq:
  "create_prompt_template role =
     Inr \<lparr> template = (case map_of ROLE_PROMPTS role of None \<Rightarrow> GENERAL_PROMPT | Some p \<Rightarrow> p)
                        @ TEMPLATE_BODY,
           input_variables = [ascii ''context'', ascii ''question''] \<rparr>"
  by (simp add: create_prompt_template_def dict_item_def map_of_ROLE_PROMPTS)

text \<open>
  Claim C6. For every role, \<open>_create_prompt_template\<close> returns a template and raises
  nothing; for a role that is none of \<open>doctor\<close>, \<open>receptionist\<close>, \<open>billing\<close> and
  \<open>general\<close>, the template starts with the prompt of the GENERAL role.
\<close>

theorem create_prompt_template_falls_back_to_general:
  "\<exists>t. create_prompt_template role = Inr t
       \<and> (role \<notin> {ascii ''doctor'', ascii ''receptionist'', ascii ''billing'', ascii ''general''}
            \<longrightarrow> template t = GENERAL_PROMPT @ TEMPLATE_BODY)"
  by (simp add: create_prompt_template_eq map_of_ROLE_PROMPTS)

theorem create_prompt_template_falls_back_to_general_witness:
  "ascii ''nurse'' \<notin> {ascii ''doctor'', ascii ''receptionist'', ascii ''billing'', ascii ''general''}
   \<and> create_prompt_template (ascii ''nurse'')
     = Inr \<lparr> template = GENERAL_PROMPT @ TEMPLATE_BODY,
             input_variables = [ascii ''context'', ascii ''question''] \<rparr>"
  using create_prompt_template_falls_back_to_general [of "ascii ''nurse''"]
  by (auto simp add: create_prompt_template_eq)

lemma get_all_schemas_tool_registry:
  "\<exists>schemas. get_all_schemas tool_registry = Inr schemas \<and> length schemas = 5"
  by (simp add: get_all_schemas_def tools_tool_registry get_schema_def)

lemma query_prompt_total: "\<exists>prompt. query_prompt user_role = Inr prompt"
  using get_all_schemas_tool_registry
  by (auto simp add: query_prompt_def create_prompt_template_eq)

text \<open>
  Claim C1. For every question and role, once the vector store is opened and the chain
  is built, an exception of the chain invocation does not leave \<open>query\<close>: it returns a
  result whose answer is the error text with the message of the exception, whose sources
  are empty and whose \<open>tools_used\<close> is empty. The prompt is built for every role.
\<close>

theorem query_provider_failure_is_answered:
  assumes "connect_error w = None" and "chain_error p = None"
  shows "\<exists>prompt. query_prompt user_role = Inr prompt
           \<and> (\<forall>e. invoke p (RetrievalQA db prompt include_sources) question = Inl e
                \<longrightarrow> query w lib p db question user_role include_sources
                     = Inr \<lparr> qr_question = question,
                             qr_answer = cross_mark @ ascii '' Error processing query: ''
                                         @ str_exn e,
                             qr_sources = [],
                             qr_user_role = UserRole_value user_role,
                             qr_disclaimer = DISCLAIMER,
                             qr_processing_time_seconds = FRound (FSub (FClock 1) (FClock 0)) 2,
                             qr_tools_used = [] \<rparr>)"
proof -
  from query_prompt_total obtain prompt where prompt: "query_prompt user_role = Inr prompt"
    by blast
  with assms show ?thesis
    by (simp add: query_def get_vectorstore_def from_chain_type_def)
qed

theorem query_provider_failure_is_answered_witness:
  "connect_error sample_world = None \<and> chain_error sample_provider = None
   \<and> query sample_world sample_lib sample_provider \<lparr> collection = [] \<rparr>
       (ascii ''What are the visiting hours?'') GENERAL True
     = Inr \<lparr> qr_question = ascii ''What are the visiting hours?'',
             qr_answer = cross_mark @ ascii '' Error processing query: ''
                         @ ascii ''429 quota exceeded'',
             qr_sources = [],
             qr_user_role = ascii ''general'',
             qr_disclaimer = DISCLAIMER,
             qr_processing_time_seconds = FRound (FSub (FClock 1) (FClock 0)) 2,
             qr_tools_used = [] \<rparr>"
  using query_provider_failure_is_answered
    [of sample_world sample_provider GENERAL "\<lparr> collection = [] \<rparr>" True
        "ascii ''What are the visiting hours?''" sample_lib]
  by (auto simp add: sample_world_def sample_provider_def)

end
